theory Spec2Isabelle
  imports Main "HOL-Library.Sublist"
begin

section \<open>Strings and message literals\<close>

text \<open>
  JavaScript strings are modelled as \<^typ>\<open>string\<close>: the sequence of bytes of the
  UTF-8 encoding of the text. The character \<open>/\<close> is a single byte that never occurs
  inside a multi-byte sequence, and a well-formed string is a prefix of another one as
  text exactly when it is one as bytes, so \<open>startsWith\<close>, \<open>basename\<close> and \<open>resolve\<close>
  read the same on bytes as on text. The Japanese message literals of \<open>shell.ts\<close> are
  written out as the bytes of their encoding.
\<close>

definition utf8 :: "nat list \<Rightarrow> string" where
  "utf8 bs = map char_of bs"

text \<open>\<open>shell.ts\<close> line 163, "no command was given".\<close>

definition msg_no_command :: string where
  "msg_no_command = utf8 [227, 130, 179, 227, 131, 158, 227, 131, 179, 227, 131, 137,
     227, 129, 140, 230, 140, 135, 229, 174, 154, 227, 129, 149, 227, 130, 140, 227, 129,
     166, 227, 129, 132, 227, 129, 190, 227, 129, 155, 227, 130, 147]"

text \<open>\<open>shell.ts\<close> line 169, "the command is not allowed: " and ". allowed commands: ".\<close>

definition msg_not_allowed_pre :: string where
  "msg_not_allowed_pre = utf8 [227, 130, 179, 227, 131, 158, 227, 131, 179, 227, 131, 137,
     227, 129, 175, 232, 168, 177, 229, 143, 175, 227, 129, 149, 227, 130, 140, 227, 129,
     166, 227, 129, 132, 227, 129, 190, 227, 129, 155, 227, 130, 147, 58, 32]"

definition msg_not_allowed_mid :: string where
  "msg_not_allowed_mid = utf8 [227, 128, 130, 232, 168, 177, 229, 143, 175, 227, 129, 149,
     227, 130, 140, 227, 129, 166, 227, 129, 132, 227, 130, 139, 227, 130, 179, 227, 131,
     158, 227, 131, 179, 227, 131, 137, 58, 32]"

text \<open>\<open>shell.ts\<close> line 235, "working directory " and " is outside the allowed base
  directory".\<close>

definition msg_outside_pre :: string where
  "msg_outside_pre = utf8 [228, 189, 156, 230, 165, 173, 227, 131, 135, 227, 130, 163,
     227, 131, 172, 227, 130, 175, 227, 131, 136, 227, 131, 170, 32]"

definition msg_outside_post :: string where
  "msg_outside_post = utf8 [32, 227, 129, 175, 232, 168, 177, 229, 143, 175, 227, 129, 149,
     227, 130, 140, 227, 129, 159, 227, 131, 153, 227, 131, 188, 227, 130, 185, 227, 131,
     135, 227, 130, 163, 227, 131, 172, 227, 130, 175, 227, 131, 136, 227, 131, 170, 227,
     129, 174, 229, 164, 150, 227, 129, 171, 227, 129, 130, 227, 130, 138, 227, 129, 190,
     227, 129, 153]"

text \<open>\<open>shell.ts\<close> line 240, "the directory does not exist: ".\<close>

definition msg_missing_pre :: string where
  "msg_missing_pre = utf8 [227, 131, 135, 227, 130, 163, 227, 131, 172, 227, 130, 175,
     227, 131, 136, 227, 131, 170, 227, 129, 140, 229, 173, 152, 229, 156, 168, 227, 129,
     151, 227, 129, 190, 227, 129, 155, 227, 130, 147, 58, 32]"

text \<open>\<open>shell.ts\<close> line 195, "running the command failed: ".\<close>

definition msg_failed_pre :: string where
  "msg_failed_pre = utf8 [227, 130, 179, 227, 131, 158, 227, 131, 179, 227, 131, 137,
     227, 129, 174, 229, 174, 159, 232, 161, 140, 227, 129, 171, 229, 164, 177, 230, 149,
     151, 227, 129, 151, 227, 129, 190, 227, 129, 151, 227, 129, 159, 58, 32]"

text \<open>\<open>shell.ts\<close> line 311, "the command " and "ms later timed out"; line 314, "the
  command execution timed out".\<close>

definition msg_timeout_pre :: string where
  "msg_timeout_pre = utf8 [227, 130, 179, 227, 131, 158, 227, 131, 179, 227, 131, 137,
     227, 129, 175]"

definition msg_timeout_post :: string where
  "msg_timeout_post = utf8 [109, 115, 229, 190, 140, 227, 129, 171, 227, 130, 191, 227,
     130, 164, 227, 131, 160, 227, 130, 162, 227, 130, 166, 227, 131, 136, 227, 129, 151,
     227, 129, 190, 227, 129, 151, 227, 129, 159]"

definition msg_timeout_error :: string where
  "msg_timeout_error = utf8 [227, 130, 179, 227, 131, 158, 227, 131, 179, 227, 131, 137,
     229, 174, 159, 232, 161, 140, 227, 129, 140, 227, 130, 191, 227, 130, 164, 227, 131,
     160, 227, 130, 162, 227, 130, 166, 227, 131, 136, 227, 129, 151, 227, 129, 190, 227,
     129, 151, 227, 129, 159]"

text \<open>\<open>Array.prototype.join\<close>.\<close>

fun join :: "string \<Rightarrow> string list \<Rightarrow> string" where
  "join sep [] = []"
| "join sep [x] = x"
| "join sep (x # y # ys) = x @ sep @ join sep (y # ys)"

text \<open>The decimal text of an integer, as a template literal prints a whole number.\<close>

fun digits :: "nat \<Rightarrow> string" where
  "digits n = (if n < 10 then [char_of (48 + n)]
               else digits (n div 10) @ [char_of (48 + n mod 10)])"

definition number_text :: "int \<Rightarrow> string" where
  "number_text i = (if i < 0 then CHR ''-'' # digits (nat (- i)) else digits (nat i))"

section \<open>Paths (the POSIX functions of the runtime's \<open>path\<close> module)\<close>

text \<open>The pieces of a string between the occurrences of a separator.\<close>

fun split_on :: "char \<Rightarrow> string \<Rightarrow> string list" where
  "split_on c [] = [[]]"
| "split_on c (x # xs) =
     (if x = c then [] # split_on c xs
      else (case split_on c xs of [] \<Rightarrow> [[x]] | s # ss \<Rightarrow> (x # s) # ss))"

text \<open>
  \<open>path.basename(p)\<close>: scanning from the end, the trailing slashes are skipped, and the
  result is what lies between the last slash before them and their start; a string of
  slashes alone gives the empty string.
\<close>

definition basename :: "string \<Rightarrow> string" where
  "basename p =
     rev (takeWhile (\<lambda>c. c \<noteq> CHR ''/'') (dropWhile (\<lambda>c. c = CHR ''/'') (rev p)))"

text \<open>
  \<open>normalizeString\<close> with \<open>allowAboveRoot = false\<close>: empty segments and \<open>.\<close> are
  dropped, \<open>..\<close> removes the segment before it, and does nothing at the root.
\<close>

definition norm_step :: "string list \<Rightarrow> string \<Rightarrow> string list" where
  "norm_step st seg =
     (if seg = [] \<or> seg = ''.'' then st
      else if seg = ''..'' then butlast st
      else st @ [seg])"

definition normalize_segments :: "string list \<Rightarrow> string list" where
  "normalize_segments segs = foldl norm_step [] segs"

definition is_absolute :: "string \<Rightarrow> bool" where
  "is_absolute p = (case p of [] \<Rightarrow> False | c # _ \<Rightarrow> c = CHR ''/'')"

text \<open>
  \<open>path.resolve(a, b)\<close>: the arguments are taken from the right, empty ones skipped,
  until an absolute one has been prepended; the process's current directory is asked for
  only when neither is absolute, and asking may throw (the directory was removed). The
  result is the normalized path, absolute, with no trailing slash.
\<close>

definition resolve_join :: "(string + string) \<Rightarrow> string \<Rightarrow> string \<Rightarrow> string + string" where
  "resolve_join pcwd a b =
     (let r1 = (if b = [] then [] else b @ ''/'') in
      if is_absolute b then Inr r1
      else
        let r2 = (if a = [] then r1 else a @ ''/'' @ r1) in
        if is_absolute a then Inr r2
        else (case pcwd of Inl e \<Rightarrow> Inl e
              | Inr d \<Rightarrow> Inr (if d = [] then r2 else d @ ''/'' @ r2)))"

definition resolve :: "(string + string) \<Rightarrow> string \<Rightarrow> string \<Rightarrow> string + string" where
  "resolve pcwd a b =
     (case resolve_join pcwd a b of Inl e \<Rightarrow> Inl e
      | Inr p \<Rightarrow> Inr (CHR ''/'' # join ''/'' (normalize_segments (split_on CHR ''/'' p))))"

section \<open>The executor\<close>

text \<open>
  The fields of \<open>class ShellExecutor\<close>. The \<open>Set<string>\<close> of allowed commands is the list
  of its members in insertion order, without repetition; the environment is a map.
\<close>

type_synonym environment = "string \<rightharpoonup> string"

record ShellExecutor =
  allowedCommands :: "string list"
  baseDirectory :: string
  maxTimeout :: int
  shellEnvironment :: environment

definition defaultCommands :: "string list" where
  "defaultCommands =
     [''npm'', ''yarn'', ''pnpm'', ''bun'',
      ''git'',
      ''ls'', ''dir'', ''find'', ''mkdir'', ''rmdir'', ''cp'', ''mv'', ''rm'', ''cat'',
      ''node'', ''python'', ''python3'', ''tsc'', ''eslint'', ''prettier'',
      ''make'', ''cargo'', ''go'',
      ''docker'', ''docker-compose'',
      ''echo'', ''touch'', ''grep'']"

definition newShellExecutor :: "string \<Rightarrow> environment \<Rightarrow> ShellExecutor" where
  "newShellExecutor baseDir shellEnv =
     \<lparr> allowedCommands = defaultCommands,
       baseDirectory = baseDir,
       maxTimeout = 60000,
       shellEnvironment = shellEnv \<rparr>"

definition isCommandAllowed :: "ShellExecutor \<Rightarrow> string \<Rightarrow> bool" where
  "isCommandAllowed ex command =
     (let commandName = basename command in commandName \<in> set (allowedCommands ex))"

definition getAllowedCommands :: "ShellExecutor \<Rightarrow> string list" where
  "getAllowedCommands ex = allowedCommands ex"

text \<open>\<open>Set.add\<close> appends a new member and leaves a present one where it is;
  \<open>Set.delete\<close> removes the member.\<close>

definition allowCommand :: "string \<Rightarrow> ShellExecutor \<Rightarrow> ShellExecutor" where
  "allowCommand command ex =
     ex\<lparr>allowedCommands :=
          (if command \<in> set (allowedCommands ex) then allowedCommands ex
           else allowedCommands ex @ [command])\<rparr>"

definition disallowCommand :: "string \<Rightarrow> ShellExecutor \<Rightarrow> ShellExecutor" where
  "disallowCommand command ex =
     ex\<lparr>allowedCommands := removeAll command (allowedCommands ex)\<rparr>"

text \<open>
  What the executor reads from the operating system: the process's current directory
  (or the error that asking for it throws) and \<open>fs.existsSync\<close>.
\<close>

record FileSystem =
  processCwd :: "string + string"
  existsSync :: "string \<Rightarrow> bool"

text \<open>The result object of \<open>executeCommand\<close>; \<open>error\<close> is the optional field.\<close>

record ExecResult =
  stdout :: string
  stderr :: string
  exitCode :: int
  success :: bool
  error :: "string option"

definition createErrorResponse :: "string \<Rightarrow> ExecResult" where
  "createErrorResponse message =
     \<lparr> stdout = [], stderr = message, exitCode = 1, success = False, error = Some message \<rparr>"

text \<open>
  \<open>validateWorkingDirectory\<close>; \<open>Inl\<close> is the message of the thrown \<open>Error\<close>. An absent
  \<open>cwd\<close> and the empty string are both falsy.
\<close>

definition validateWorkingDirectory ::
    "ShellExecutor \<Rightarrow> FileSystem \<Rightarrow> string option \<Rightarrow> string + string" where
  "validateWorkingDirectory ex fs cwd =
     (case cwd of
        None \<Rightarrow> Inr (baseDirectory ex)
      | Some d \<Rightarrow>
          if d = [] then Inr (baseDirectory ex)
          else
            (case resolve (processCwd fs) (baseDirectory ex) d of
               Inl e \<Rightarrow> Inl e
             | Inr resolvedPath \<Rightarrow>
                 if \<not> prefix (baseDirectory ex) resolvedPath
                 then Inl (msg_outside_pre @ d @ msg_outside_post)
                 else if \<not> existsSync fs resolvedPath
                 then Inl (msg_missing_pre @ resolvedPath)
                 else Inr resolvedPath))"

section \<open>Running the process\<close>

text \<open>
  The options \<open>executeCommand\<close> hands to \<open>spawnCommand\<close>. The timeout is a number of
  milliseconds; whole numbers are modelled, negative ones included.
\<close>

record SpawnOptions =
  cwd :: string
  env :: environment
  timeout :: int

text \<open>
  What happens after \<open>spawn\<close> has returned, in the order the event loop delivers it: a
  chunk on either stream, the \<open>close\<close> event with the exit code (\<open>None\<close> is \<open>null\<close>: the
  process was ended by a signal), the \<open>error\<close> event with the message of the error, and
  the expiry of the timer of \<open>setTimeout\<close>.
\<close>

datatype ProcEvent =
    OnStdout string
  | OnStderr string
  | OnClose "int option"
  | OnError string
  | TimerFires

text \<open>
  The variables of the promise's executor: the two buffers, whether the timer is still
  pending, whether \<open>kill\<close> has been called on the child, and the value the promise was
  resolved with. Resolving a promise a second time does nothing.
\<close>

record RunState =
  stdoutBuf :: string
  stderrBuf :: string
  timerPending :: bool
  killed :: bool
  settled :: "ExecResult option"

definition settle :: "ExecResult \<Rightarrow> RunState \<Rightarrow> RunState" where
  "settle r s = (case settled s of None \<Rightarrow> s\<lparr>settled := Some r\<rparr> | Some _ \<Rightarrow> s)"

definition initialRun :: "SpawnOptions \<Rightarrow> RunState" where
  "initialRun options =
     \<lparr> stdoutBuf = [], stderrBuf = [], timerPending = (timeout options \<noteq> 0),
       killed = False, settled = None \<rparr>"

fun onEvent :: "SpawnOptions \<Rightarrow> RunState \<Rightarrow> ProcEvent \<Rightarrow> RunState" where
  "onEvent options s (OnStdout d) = s\<lparr>stdoutBuf := stdoutBuf s @ d\<rparr>"
| "onEvent options s (OnStderr d) = s\<lparr>stderrBuf := stderrBuf s @ d\<rparr>"
| "onEvent options s (OnClose code) =
     settle \<lparr> stdout = stdoutBuf s, stderr = stderrBuf s,
              exitCode = (case code of Some n \<Rightarrow> n | None \<Rightarrow> 1),
              success = (code = Some 0), error = None \<rparr>
       (s\<lparr>timerPending := False\<rparr>)"
| "onEvent options s (OnError message) =
     settle \<lparr> stdout = stdoutBuf s, stderr = message, exitCode = 1,
              success = False, error = Some message \<rparr>
       (s\<lparr>timerPending := False\<rparr>)"
| "onEvent options s TimerFires =
     (if timerPending s
      then settle \<lparr> stdout = stdoutBuf s,
                    stderr = msg_timeout_pre @ number_text (timeout options) @ msg_timeout_post,
                    exitCode = 1, success = False, error = Some msg_timeout_error \<rparr>
             (s\<lparr>timerPending := False, killed := True\<rparr>)
      else s)"

definition runEvents :: "SpawnOptions \<Rightarrow> ProcEvent list \<Rightarrow> RunState" where
  "runEvents options evs = foldl (onEvent options) (initialRun options) evs"

text \<open>
  What the operating system does with a call of \<open>spawn\<close>: the call itself throws, or it
  returns a child whose events follow. A promise is resolved, rejected, or still pending
  when the events seen so far have not resolved it.
\<close>

datatype Behaviour = SpawnThrows string | Emits "ProcEvent list"

datatype 'a promise = Resolved 'a | Rejected string | Pending

type_synonym Spawner = "string \<Rightarrow> string list \<Rightarrow> SpawnOptions \<Rightarrow> Behaviour"

definition spawnCommand ::
    "Spawner \<Rightarrow> string \<Rightarrow> string list \<Rightarrow> SpawnOptions \<Rightarrow> ExecResult promise" where
  "spawnCommand spawn command args options =
     (case spawn command args options of
        SpawnThrows e \<Rightarrow> Rejected e
      | Emits evs \<Rightarrow>
          (case settled (runEvents options evs) of
             None \<Rightarrow> Pending
           | Some r \<Rightarrow> Resolved r))"

section \<open>\<open>executeCommand\<close>\<close>

text \<open>
  The call returns the state of its promise together with the calls of \<open>spawn\<close> it made.
  \<open>executeBody\<close> is the block inside the outer \<open>try\<close>; \<open>executeCommand\<close> adds the
  \<open>catch\<close>, which turns a rejection into an error response.
\<close>

type_synonym SpawnCall = "string \<times> string list \<times> SpawnOptions"

definition effectiveTimeout :: "ShellExecutor \<Rightarrow> int option \<Rightarrow> int" where
  "effectiveTimeout ex t =
     min (case t of None \<Rightarrow> maxTimeout ex
          | Some v \<Rightarrow> if v = 0 then maxTimeout ex else v)
         (maxTimeout ex)"

definition mergedEnv :: "ShellExecutor \<Rightarrow> environment option \<Rightarrow> environment" where
  "mergedEnv ex e = shellEnvironment ex ++ (case e of None \<Rightarrow> Map.empty | Some m \<Rightarrow> m)"

definition executeBody ::
    "ShellExecutor \<Rightarrow> FileSystem \<Rightarrow> Spawner \<Rightarrow> string \<Rightarrow> string list \<Rightarrow> string option \<Rightarrow>
     environment option \<Rightarrow> int option \<Rightarrow> ExecResult promise \<times> SpawnCall list" where
  "executeBody ex fs spawn command args cwd_opt env_opt timeout_opt =
     (if command = [] then (Resolved (createErrorResponse msg_no_command), [])
      else if \<not> isCommandAllowed ex command
      then (Resolved (createErrorResponse
              (msg_not_allowed_pre @ command @ msg_not_allowed_mid
                 @ join '', '' (allowedCommands ex))), [])
      else
        (case validateWorkingDirectory ex fs cwd_opt of
           Inl e \<Rightarrow> (Resolved (createErrorResponse e), [])
         | Inr workingDir \<Rightarrow>
             let options = \<lparr> cwd = workingDir, env = mergedEnv ex env_opt,
                             timeout = effectiveTimeout ex timeout_opt \<rparr>
             in (spawnCommand spawn command args options, [(command, args, options)])))"

definition executeCommand ::
    "ShellExecutor \<Rightarrow> FileSystem \<Rightarrow> Spawner \<Rightarrow> string \<Rightarrow> string list \<Rightarrow> string option \<Rightarrow>
     environment option \<Rightarrow> int option \<Rightarrow> ExecResult promise \<times> SpawnCall list" where
  "executeCommand ex fs spawn command args cwd_opt env_opt timeout_opt =
     (case executeBody ex fs spawn command args cwd_opt env_opt timeout_opt of
        (Rejected e, calls) \<Rightarrow> (Resolved (createErrorResponse (msg_failed_pre @ e)), calls)
      | (p, calls) \<Rightarrow> (p, calls))"

section \<open>Notions the properties are stated with\<close>

text \<open>
  The basename as the specification words it: the last path segment of the command,
  whatever directory prefix comes before it (and the empty string when there is no
  segment at all).
\<close>

definition spec_basename :: "string \<Rightarrow> string" where
  "spec_basename c =
     (let segs = filter (\<lambda>s. s \<noteq> []) (split_on CHR ''/'' c)
      in if segs = [] then [] else last segs)"

text \<open>An absolute path as text, from its segments.\<close>

definition path_text :: "string list \<Rightarrow> string" where
  "path_text segs = CHR ''/'' # join ''/'' segs"

text \<open>
  Events that only carry output, and events that resolve the promise when the timer is
  set; what a run of output events has written to each stream.
\<close>

fun is_data :: "ProcEvent \<Rightarrow> bool" where
  "is_data (OnStdout d) = True"
| "is_data (OnStderr d) = True"
| "is_data e = False"

fun is_terminal :: "ProcEvent \<Rightarrow> bool" where
  "is_terminal (OnStdout d) = False"
| "is_terminal (OnStderr d) = False"
| "is_terminal e = True"

fun stdout_of :: "ProcEvent list \<Rightarrow> string" where
  "stdout_of [] = []"
| "stdout_of (OnStdout d # evs) = d @ stdout_of evs"
| "stdout_of (e # evs) = stdout_of evs"

fun stderr_of :: "ProcEvent list \<Rightarrow> string" where
  "stderr_of [] = []"
| "stderr_of (OnStderr d # evs) = d @ stderr_of evs"
| "stderr_of (e # evs) = stderr_of evs"

text \<open>
  A behaviour that comes to an end: \<open>spawn\<close> throws, or the events include the close of
  the process, an error, or the expiry of the timer.
\<close>

fun comes_to_an_end :: "Behaviour \<Rightarrow> bool" where
  "comes_to_an_end (SpawnThrows e) = True"
| "comes_to_an_end (Emits evs) = list_ex is_terminal evs"

fun resolved_value :: "'a promise \<Rightarrow> 'a option" where
  "resolved_value (Resolved r) = Some r"
| "resolved_value (Rejected e) = None"
| "resolved_value Pending = None"

text \<open>The options \<open>executeCommand\<close> builds for the call of \<open>spawnCommand\<close>.\<close>

definition requestOptions ::
    "ShellExecutor \<Rightarrow> string \<Rightarrow> environment option \<Rightarrow> int option \<Rightarrow> SpawnOptions" where
  "requestOptions ex wd env_opt timeout_opt =
     \<lparr> cwd = wd, env = mergedEnv ex env_opt, timeout = effectiveTimeout ex timeout_opt \<rparr>"

text \<open>
  \<open>spawnCommand\<close> calls \<open>spawn\<close> with \<open>shell: true\<close> (lines 260 to 264), so the child is
  the shell, which runs the command line. A command the shell cannot find is reported by
  the shell on its standard error, and the shell exits with status 127; a command it may
  not execute, with status 126. The text of the report is the shell's.
\<close>

definition missing_binary_events :: "string \<Rightarrow> ProcEvent list" where
  "missing_binary_events complaint = [OnStderr complaint, OnClose (Some 127)]"

definition not_executable_events :: "string \<Rightarrow> ProcEvent list" where
  "not_executable_events complaint = [OnStderr complaint, OnClose (Some 126)]"

text \<open>While the promise is unresolved the timer is still pending.\<close>

definition armed :: "RunState \<Rightarrow> bool" where
  "armed s = (settled s = None \<longrightarrow> timerPending s)"

text \<open>
  A concrete installation for the examples: the executor as constructed for the base
  directory \<open>/srv/app\<close>, a file system that holds \<open>/srv/app\<close> and \<open>/srv/app/src\<close>, a set
  of options, and a child that prints \<open>hello\<close> and exits with code 0.
\<close>

definition app_executor :: ShellExecutor where
  "app_executor = newShellExecutor ''/srv/app''
     [''PATH'' \<mapsto> ''/usr/bin'', ''HOME'' \<mapsto> ''/root'']"

definition app_fs :: FileSystem where
  "app_fs = \<lparr> processCwd = Inr ''/srv/app'',
              existsSync = (\<lambda>p. p = ''/srv/app'' \<or> p = ''/srv/app/src'') \<rparr>"

definition app_options :: SpawnOptions where
  "app_options = \<lparr> cwd = ''/srv/app'', env = Map.empty, timeout = 1000 \<rparr>"

definition echo_spawner :: Spawner where
  "echo_spawner c a opts = Emits [OnStdout ''hello'', OnClose (Some 0)]"

text \<open>
  Children for the examples: a \<open>spawn\<close> that throws, a child that is still running when
  the timer fires, a shell that cannot be started, a child that exits with code 2, and a
  shell that cannot find the command or may not execute it.
\<close>

definition throwing_spawner :: Spawner where
  "throwing_spawner c a opts = SpawnThrows ''spawn E2BIG''"

definition hanging_spawner :: Spawner where
  "hanging_spawner c a opts =
     Emits ([OnStdout ''par'', OnStderr ''warning'', OnStdout ''tial'']
              @ TimerFires # [OnClose None])"

definition failing_spawner :: Spawner where
  "failing_spawner c a opts = Emits ([] @ OnError ''spawn /bin/sh ENOENT'' # [OnClose (Some (- 2))])"

definition exiting_spawner :: Spawner where
  "exiting_spawner c a opts = Emits ([OnStdout ''out'', OnStderr ''err''] @ OnClose (Some 2) # [])"

definition absent_spawner :: Spawner where
  "absent_spawner c a opts = Emits (missing_binary_events ''/bin/sh: 1: cargo: not found'')"

definition denied_spawner :: Spawner where
  "denied_spawner c a opts = Emits (not_executable_events ''/bin/sh: 1: cargo: Permission denied'')"

section \<open>The allow-list\<close>

lemma split_on_not_Nil: "split_on c xs \<noteq> []"
  by (induction xs) (auto split: list.splits)

lemma split_on_snoc_sep: "split_on c (xs @ [c]) = split_on c xs @ [[]]"
  by (induction xs) (auto split: list.splits simp: split_on_not_Nil)

lemma split_on_snoc_other:
  "x \<noteq> c \<Longrightarrow> split_on c (xs @ [x]) = butlast (split_on c xs) @ [last (split_on c xs) @ [x]]"
  by (induction xs) (auto split: list.splits simp: split_on_not_Nil)

lemma last_split_on: "last (split_on c xs) = rev (takeWhile (\<lambda>y. y \<noteq> c) (rev xs))"
proof (induction xs rule: rev_induct)
  case Nil
  show ?case by simp
next
  case (snoc x xs)
  show ?case
  proof (cases "x = c")
    case True
    then show ?thesis by (simp add: split_on_snoc_sep)
  next
    case False
    then show ?thesis using snoc by (simp add: split_on_snoc_other)
  qed
qed

lemma basename_snoc_slash: "basename (p @ ''/'') = basename p"
  by (simp add: basename_def)

lemma basename_snoc_other:
  "x \<noteq> CHR ''/'' \<Longrightarrow>
   basename (p @ [x]) = rev (takeWhile (\<lambda>c. c \<noteq> CHR ''/'') (rev p)) @ [x]"
  by (simp add: basename_def)

lemma spec_basename_snoc_slash: "spec_basename (p @ ''/'') = spec_basename p"
  by (simp add: spec_basename_def split_on_snoc_sep)

lemma spec_basename_snoc_other:
  "x \<noteq> CHR ''/'' \<Longrightarrow> spec_basename (p @ [x]) = last (split_on CHR ''/'' p) @ [x]"
  by (simp add: spec_basename_def split_on_snoc_other)

text \<open>The scan of \<open>path.basename\<close> finds the last path segment.\<close>

lemma basename_is_last_segment: "basename p = spec_basename p"
proof (induction p rule: rev_induct)
  case Nil
  show ?case by (simp add: basename_def spec_basename_def)
next
  case (snoc x xs)
  show ?case
  proof (cases "x = CHR ''/''")
    case True
    then show ?thesis using snoc
      by (simp add: basename_snoc_slash spec_basename_snoc_slash)
  next
    case False
    then show ?thesis
      by (simp add: basename_snoc_other spec_basename_snoc_other last_split_on)
  qed
qed

text \<open>The list stays a set: no name is held twice.\<close>

lemma newShellExecutor_distinct: "distinct (allowedCommands (newShellExecutor b e))"
  by (simp add: newShellExecutor_def defaultCommands_def)

lemma allowCommand_distinct:
  "distinct (allowedCommands ex) \<Longrightarrow> distinct (allowedCommands (allowCommand n ex))"
  by (simp add: allowCommand_def)

lemma disallowCommand_distinct:
  "distinct (allowedCommands ex) \<Longrightarrow> distinct (allowedCommands (disallowCommand n ex))"
  by (simp add: disallowCommand_def distinct_removeAll)

text \<open>
  Claim C4. A command is allowed exactly when its basename, the last path segment of the
  command, is a member of the allow-list, by equality of strings. Allowing twice is
  allowing once and disallowing twice is disallowing once; allowing a name that is
  present and disallowing one that is absent leave the executor as it was; and after
  either operation \<open>isCommandAllowed\<close> answers for the new list.
\<close>

theorem isCommandAllowed_iff_basename_member:
  "(isCommandAllowed ex c \<longleftrightarrow> spec_basename c \<in> set (allowedCommands ex))
   \<and> allowCommand n (allowCommand n ex) = allowCommand n ex
   \<and> disallowCommand n (disallowCommand n ex) = disallowCommand n ex
   \<and> (n \<in> set (allowedCommands ex) \<longrightarrow> allowCommand n ex = ex)
   \<and> (n \<notin> set (allowedCommands ex) \<longrightarrow> disallowCommand n ex = ex)
   \<and> (isCommandAllowed (allowCommand n ex) c
        \<longleftrightarrow> spec_basename c = n \<or> isCommandAllowed ex c)
   \<and> (isCommandAllowed (disallowCommand n ex) c
        \<longleftrightarrow> spec_basename c \<noteq> n \<and> isCommandAllowed ex c)"
  by (auto simp: isCommandAllowed_def allowCommand_def disallowCommand_def
      basename_is_last_segment Let_def)

theorem isCommandAllowed_iff_basename_member_witness:
  "''git'' \<in> set (allowedCommands (newShellExecutor ''/srv/app'' Map.empty))
   \<and> allowCommand ''git'' (newShellExecutor ''/srv/app'' Map.empty)
       = newShellExecutor ''/srv/app'' Map.empty
   \<and> ''curl'' \<notin> set (allowedCommands (newShellExecutor ''/srv/app'' Map.empty))
   \<and> disallowCommand ''curl'' (newShellExecutor ''/srv/app'' Map.empty)
       = newShellExecutor ''/srv/app'' Map.empty
   \<and> isCommandAllowed (newShellExecutor ''/srv/app'' Map.empty) ''/usr/bin/git''
   \<and> \<not> isCommandAllowed (newShellExecutor ''/srv/app'' Map.empty) ''Git''
   \<and> isCommandAllowed (allowCommand ''curl'' (newShellExecutor ''/srv/app'' Map.empty))
        ''/usr/bin/curl''
   \<and> \<not> isCommandAllowed (disallowCommand ''git'' (newShellExecutor ''/srv/app'' Map.empty))
        ''/usr/bin/git''"
proof -
  let ?ex = "newShellExecutor ''/srv/app'' Map.empty"
  have m1: "''git'' \<in> set (allowedCommands ?ex)"
    by (simp add: newShellExecutor_def defaultCommands_def)
  have m2: "''curl'' \<notin> set (allowedCommands ?ex)"
    by (simp add: newShellExecutor_def defaultCommands_def)
  have m3: "''Git'' \<notin> set (allowedCommands ?ex)"
    by (simp add: newShellExecutor_def defaultCommands_def)
  have b1: "spec_basename ''/usr/bin/git'' = ''git''" by code_simp
  have b2: "spec_basename ''Git'' = ''Git''" by code_simp
  have b3: "spec_basename ''/usr/bin/curl'' = ''curl''" by code_simp
  show ?thesis
    using isCommandAllowed_iff_basename_member [of ?ex "''/usr/bin/git''" "''git''"]
      isCommandAllowed_iff_basename_member [of ?ex "''/usr/bin/curl''" "''curl''"]
      isCommandAllowed_iff_basename_member [of ?ex "''Git''" "''git''"]
      m1 m2 m3 b1 b2 b3
    by simp
qed

section \<open>The examples\<close>

lemma app_executor_simps:
  "allowedCommands app_executor = defaultCommands"
  "baseDirectory app_executor = ''/srv/app''"
  "maxTimeout app_executor = 60000"
  "shellEnvironment app_executor = [''PATH'' \<mapsto> ''/usr/bin'', ''HOME'' \<mapsto> ''/root'']"
  by (simp_all add: app_executor_def newShellExecutor_def)

lemma app_fs_simps:
  "processCwd app_fs = Inr ''/srv/app''"
  "existsSync app_fs p = (p = ''/srv/app'' \<or> p = ''/srv/app/src'')"
  by (simp_all add: app_fs_def)

lemma echo_allowed: "isCommandAllowed app_executor ''echo''"
  by (simp add: isCommandAllowed_def app_executor_simps defaultCommands_def basename_def)

lemma curl_not_allowed: "\<not> isCommandAllowed app_executor ''curl''"
  by (simp add: isCommandAllowed_def app_executor_simps defaultCommands_def basename_def)

lemma resolve_src: "resolve (Inr ''/srv/app'') ''/srv/app'' ''src'' = Inr ''/srv/app/src''"
  by code_simp

lemma resolve_escape: "resolve (Inr ''/srv/app'') ''/srv/app'' ''../etc'' = Inr ''/srv/etc''"
  by code_simp

lemma app_validate_src:
  "validateWorkingDirectory app_executor app_fs (Some ''src'') = Inr ''/srv/app/src''"
  by (simp add: validateWorkingDirectory_def app_executor_simps app_fs_simps resolve_src)

lemma app_validate_escape:
  "validateWorkingDirectory app_executor app_fs (Some ''../etc'')
     = Inl (msg_outside_pre @ ''../etc'' @ msg_outside_post)"
  by (simp add: validateWorkingDirectory_def app_executor_simps app_fs_simps resolve_escape)

lemma cargo_allowed: "isCommandAllowed app_executor ''cargo''"
  by (simp add: isCommandAllowed_def app_executor_simps defaultCommands_def basename_def)

lemma app_validate_none: "validateWorkingDirectory app_executor app_fs None = Inr ''/srv/app''"
  by (simp add: validateWorkingDirectory_def app_executor_simps)

lemma effectiveTimeout_app_1000: "effectiveTimeout app_executor (Some 1000) = 1000"
  by (simp add: effectiveTimeout_def app_executor_simps)

lemma spawnCommand_echo:
  "spawnCommand echo_spawner c a opts
     = Resolved \<lparr> stdout = ''hello'', stderr = [], exitCode = 0, success = True, error = None \<rparr>"
  by (simp add: spawnCommand_def echo_spawner_def runEvents_def initialRun_def settle_def)

lemma number_text_1000: "number_text 1000 = ''1000''"
  by code_simp



section \<open>The working directory\<close>

text \<open>
  What the check of \<open>validateWorkingDirectory\<close> does get right: a path made of the
  base directory's segments followed by more segments has the base directory's text as a
  prefix, so a directory inside the base directory that exists is returned; and a path
  that does not begin with the base directory's text is refused.
\<close>

lemma join_append:
  "xs \<noteq> [] \<Longrightarrow> ys \<noteq> [] \<Longrightarrow> join sep (xs @ ys) = join sep xs @ sep @ join sep ys"
proof (induction sep xs rule: join.induct)
  case (1 sep)
  then show ?case by simp
next
  case (2 sep x)
  then show ?case by (cases ys) simp_all
next
  case (3 sep x y ys')
  then show ?case by simp
qed

lemma path_text_prefix: "prefix (path_text bs) (path_text (bs @ rest))"
proof (cases "bs = [] \<or> rest = []")
  case True
  then show ?thesis by (auto simp: path_text_def)
next
  case False
  then show ?thesis by (simp add: path_text_def join_append)
qed

lemma validateWorkingDirectory_inside:
  assumes "d \<noteq> []" and "baseDirectory ex = path_text bs"
    and "resolve (processCwd fs) (baseDirectory ex) d = Inr (path_text (bs @ rest))"
    and "existsSync fs (path_text (bs @ rest))"
  shows "validateWorkingDirectory ex fs (Some d) = Inr (path_text (bs @ rest))"
  using assms by (simp add: validateWorkingDirectory_def path_text_prefix)

lemma validateWorkingDirectory_no_prefix:
  assumes "d \<noteq> []" and "resolve (processCwd fs) (baseDirectory ex) d = Inr p"
    and "\<not> prefix (baseDirectory ex) p"
  shows "validateWorkingDirectory ex fs (Some d) = Inl (msg_outside_pre @ d @ msg_outside_post)"
  using assms by (simp add: validateWorkingDirectory_def)

text \<open>
  Claim C9. With no working directory in the request, validation returns the base
  directory as it is and does not fail: nothing is resolved, compared or looked up on
  disk, whatever the file system holds.
\<close>

theorem validateWorkingDirectory_absent_cwd:
  "validateWorkingDirectory ex fs None = Inr (baseDirectory ex)"
  by (simp add: validateWorkingDirectory_def)

text \<open>
  Claim C1. Containment is meant to hold by path segments, so a sibling of the base
  directory whose name begins with the base directory's name has to be refused. The
  check of \<open>validateWorkingDirectory\<close> is \<open>startsWith\<close> on the text: with the base
  directory \<open>/srv/app\<close>, the existing directory \<open>/srv/app-other\<close> is accepted and returned
  as the working directory.
\<close>

theorem validateWorkingDirectory_accepts_sibling:
  "validateWorkingDirectory (newShellExecutor ''/srv/app'' Map.empty)
     \<lparr> processCwd = Inr ''/srv/app'',
       existsSync = (\<lambda>p. p = ''/srv/app'' \<or> p = ''/srv/app-other'') \<rparr>
     (Some ''/srv/app-other'') = Inr ''/srv/app-other''"
  by code_simp

section \<open>The run of a child process\<close>

text \<open>
  Once the promise is resolved, nothing that follows changes its value, and a child that
  was sent \<open>kill\<close> stays so.
\<close>

lemma onEvent_keeps_settled:
  "settled s = Some r \<Longrightarrow> settled (onEvent options s e) = Some r"
  by (cases e) (simp_all add: settle_def)

lemma foldl_onEvent_keeps_settled:
  "settled s = Some r \<Longrightarrow> settled (foldl (onEvent options) s evs) = Some r"
  by (induction evs arbitrary: s) (simp_all add: onEvent_keeps_settled)

lemma onEvent_keeps_killed: "killed s \<Longrightarrow> killed (onEvent options s e)"
  by (cases e) (simp_all add: settle_def split: option.splits)

lemma foldl_onEvent_keeps_killed:
  "killed s \<Longrightarrow> killed (foldl (onEvent options) s evs)"
  by (induction evs arbitrary: s) (simp_all add: onEvent_keeps_killed)

lemma foldl_onEvent_data:
  "list_all is_data pre \<Longrightarrow>
   foldl (onEvent options) s pre
     = s\<lparr>stdoutBuf := stdoutBuf s @ stdout_of pre, stderrBuf := stderrBuf s @ stderr_of pre\<rparr>"
proof (induction pre arbitrary: s)
  case Nil
  show ?case by simp
next
  case (Cons e pre)
  then show ?case by (cases e) simp_all
qed

lemma runEvents_data:
  "list_all is_data pre \<Longrightarrow>
   runEvents options (pre @ evs)
     = foldl (onEvent options)
         ((initialRun options)\<lparr>stdoutBuf := stdout_of pre, stderrBuf := stderr_of pre\<rparr>) evs"
  by (simp add: runEvents_def foldl_onEvent_data initialRun_def)

lemma runEvents_timer_first:
  assumes "timeout options \<noteq> 0" and "list_all is_data pre"
  shows "settled (runEvents options (pre @ TimerFires # post))
           = Some \<lparr> stdout = stdout_of pre,
                    stderr = msg_timeout_pre @ number_text (timeout options) @ msg_timeout_post,
                    exitCode = 1, success = False, error = Some msg_timeout_error \<rparr>"
    and "killed (runEvents options (pre @ TimerFires # post))"
  using assms
  by (simp_all add: runEvents_data initialRun_def settle_def
      foldl_onEvent_keeps_settled foldl_onEvent_keeps_killed)

lemma runEvents_close_first:
  assumes "list_all is_data pre"
  shows "settled (runEvents options (pre @ OnClose code # post))
           = Some \<lparr> stdout = stdout_of pre, stderr = stderr_of pre,
                    exitCode = (case code of Some n \<Rightarrow> n | None \<Rightarrow> 1),
                    success = (code = Some 0), error = None \<rparr>"
  using assms
  by (simp add: runEvents_data initialRun_def settle_def foldl_onEvent_keeps_settled)

lemma runEvents_error_first:
  "settled (runEvents options (OnError message # post))
     = Some \<lparr> stdout = [], stderr = message, exitCode = 1, success = False,
              error = Some message \<rparr>"
  by (simp add: runEvents_def initialRun_def settle_def foldl_onEvent_keeps_settled)


lemma runEvents_error_after_data:
  assumes "list_all is_data pre"
  shows "settled (runEvents options (pre @ OnError message # post))
           = Some \<lparr> stdout = stdout_of pre, stderr = message, exitCode = 1, success = False,
                    error = Some message \<rparr>"
  using assms
  by (simp add: runEvents_data initialRun_def settle_def foldl_onEvent_keeps_settled)

lemma onEvent_armed: "armed s \<Longrightarrow> armed (onEvent options s e)"
  by (cases e) (simp_all add: armed_def settle_def split: option.splits)

lemma onEvent_terminal_settles:
  "armed s \<Longrightarrow> is_terminal e \<Longrightarrow> settled (onEvent options s e) \<noteq> None"
  by (cases e) (auto simp: armed_def settle_def split: option.splits)

lemma foldl_onEvent_settles:
  "armed s \<Longrightarrow> list_ex is_terminal evs \<Longrightarrow> settled (foldl (onEvent options) s evs) \<noteq> None"
proof (induction evs arbitrary: s)
  case Nil
  then show ?case by simp
next
  case (Cons e evs)
  show ?case
  proof (cases "is_terminal e")
    case True
    with Cons.prems obtain r where "settled (onEvent options s e) = Some r"
      using onEvent_terminal_settles by blast
    then show ?thesis by (simp add: foldl_onEvent_keeps_settled)
  next
    case False
    with Cons show ?thesis by (simp add: onEvent_armed)
  qed
qed

lemma runEvents_settles:
  "timeout options \<noteq> 0 \<Longrightarrow> list_ex is_terminal evs \<Longrightarrow> settled (runEvents options evs) \<noteq> None"
  by (simp add: runEvents_def foldl_onEvent_settles armed_def initialRun_def)




text \<open>
  Claim C10. When the process closes before the timer has fired and with no error
  event, the result carries the output of both streams, the exit code of the process, or
  1 when the code is \<open>null\<close>, and \<open>success\<close> is true exactly for the exit code 0. A
  process ended by a signal therefore gives exit code 1 and \<open>success = false\<close>.
\<close>

theorem spawnCommand_close_result:
  assumes "spawn command args options = Emits (pre @ OnClose code # post)"
    and "list_all is_data pre"
  shows "spawnCommand spawn command args options
           = Resolved \<lparr> stdout = stdout_of pre, stderr = stderr_of pre,
                        exitCode = (case code of None \<Rightarrow> 1 | Some n \<Rightarrow> n),
                        success = (code = Some 0), error = None \<rparr>
         \<and> (code = None \<longrightarrow>
              spawnCommand spawn command args options
                = Resolved \<lparr> stdout = stdout_of pre, stderr = stderr_of pre,
                             exitCode = 1, success = False, error = None \<rparr>)"
  using assms by (auto simp: spawnCommand_def runEvents_close_first split: option.splits)

theorem spawnCommand_close_result_witness:
  "(\<lambda>c a opts. Emits ([OnStdout ''out'', OnStderr ''err''] @ OnClose None # [])) 
       ''node'' [''server.js''] app_options
     = Emits ([OnStdout ''out'', OnStderr ''err''] @ OnClose None # [])
   \<and> list_all is_data [OnStdout ''out'', OnStderr ''err'']
   \<and> spawnCommand (\<lambda>c a opts. Emits ([OnStdout ''out'', OnStderr ''err''] @ OnClose None # []))
         ''node'' [''server.js''] app_options
       = Resolved \<lparr> stdout = ''out'', stderr = ''err'', exitCode = 1, success = False,
                    error = None \<rparr>"
  using spawnCommand_close_result
          [of "\<lambda>c a opts. Emits ([OnStdout ''out'', OnStderr ''err''] @ OnClose None # [])"
              "''node''" "[''server.js'']" app_options "[OnStdout ''out'', OnStderr ''err'']"
              None "[]"]
  by simp

section \<open>The checks of \<open>executeCommand\<close> and its call of the process runner\<close>

lemma effectiveTimeout_nonzero: "maxTimeout ex \<noteq> 0 \<Longrightarrow> effectiveTimeout ex t \<noteq> 0"
  by (auto simp: effectiveTimeout_def min_def split: option.splits)

lemma executeBody_spawns:
  assumes "command \<noteq> []" and "isCommandAllowed ex command"
    and "validateWorkingDirectory ex fs cwd_opt = Inr wd"
  shows "executeBody ex fs spawn command args cwd_opt env_opt timeout_opt
           = (spawnCommand spawn command args
                \<lparr> cwd = wd, env = mergedEnv ex env_opt,
                  timeout = effectiveTimeout ex timeout_opt \<rparr>,
              [(command, args, \<lparr> cwd = wd, env = mergedEnv ex env_opt,
                  timeout = effectiveTimeout ex timeout_opt \<rparr>)])"
  using assms by (simp add: executeBody_def Let_def)

lemma executeCommand_calls:
  "snd (executeCommand ex fs spawn command args cwd_opt env_opt timeout_opt)
     = snd (executeBody ex fs spawn command args cwd_opt env_opt timeout_opt)"
  by (simp add: executeCommand_def split: prod.splits promise.splits)

lemma executeCommand_spawns:
  assumes "command \<noteq> []" and "isCommandAllowed ex command"
    and "validateWorkingDirectory ex fs cwd_opt = Inr wd"
  shows "snd (executeCommand ex fs spawn command args cwd_opt env_opt timeout_opt)
           = [(command, args, \<lparr> cwd = wd, env = mergedEnv ex env_opt,
                  timeout = effectiveTimeout ex timeout_opt \<rparr>)]"
  using assms by (simp add: executeCommand_calls executeBody_spawns)

lemma requestOptions_timeout:
  "timeout (requestOptions ex wd env_opt timeout_opt) = effectiveTimeout ex timeout_opt"
  by (simp add: requestOptions_def)

lemma executeCommand_result:
  assumes "command \<noteq> []" and "isCommandAllowed ex command"
    and "validateWorkingDirectory ex fs cwd_opt = Inr wd"
  shows "fst (executeCommand ex fs spawn command args cwd_opt env_opt timeout_opt)
           = (case spawnCommand spawn command args (requestOptions ex wd env_opt timeout_opt) of
                Rejected thrown \<Rightarrow> Resolved (createErrorResponse (msg_failed_pre @ thrown))
              | Resolved r \<Rightarrow> Resolved r
              | Pending \<Rightarrow> Pending)"
  using assms
  by (simp add: executeCommand_def executeBody_spawns requestOptions_def split: promise.splits)

text \<open>
  Claim C2. The promise \<open>executeCommand\<close> returns is never rejected, whatever the
  request, the file system and the behaviour of \<open>spawn\<close> are, and it resolves with a
  result value whenever every child comes to an end (it closes, fails, or the timer
  fires), the timer being set on every call because the maximum timeout is not zero.
  Every outcome is the value it resolves with: each of the three validation failures is
  the error response with its message; a \<open>spawn\<close> that throws is the error response
  with the prefixed message of what was thrown; whatever \<open>spawnCommand\<close> resolves with
  is handed on unchanged; and so a timeout, an \<open>error\<close> event and a close of the process
  each give the result of their handler, with the output captured until then.
\<close>

theorem executeCommand_never_rejects:
  "fst (executeCommand ex fs spawn command args cwd_opt env_opt timeout_opt) \<noteq> Rejected m
   \<and> (maxTimeout ex \<noteq> 0 \<and> (\<forall>c a opts. comes_to_an_end (spawn c a opts))
        \<longrightarrow> (\<exists>r. fst (executeCommand ex fs spawn command args cwd_opt env_opt timeout_opt)
                    = Resolved r))
   \<and> (command = [] \<longrightarrow>
        fst (executeCommand ex fs spawn command args cwd_opt env_opt timeout_opt)
          = Resolved (createErrorResponse msg_no_command))
   \<and> (command \<noteq> [] \<and> \<not> isCommandAllowed ex command \<longrightarrow>
        fst (executeCommand ex fs spawn command args cwd_opt env_opt timeout_opt)
          = Resolved (createErrorResponse
              (msg_not_allowed_pre @ command @ msg_not_allowed_mid
                 @ join '', '' (allowedCommands ex))))
   \<and> (command \<noteq> [] \<and> isCommandAllowed ex command
        \<and> validateWorkingDirectory ex fs cwd_opt = Inl refusal \<longrightarrow>
        fst (executeCommand ex fs spawn command args cwd_opt env_opt timeout_opt)
          = Resolved (createErrorResponse refusal))
   \<and> (command \<noteq> [] \<and> isCommandAllowed ex command
        \<and> validateWorkingDirectory ex fs cwd_opt = Inr wd \<longrightarrow>
        (spawn command args (requestOptions ex wd env_opt timeout_opt) = SpawnThrows thrown \<longrightarrow>
           fst (executeCommand ex fs spawn command args cwd_opt env_opt timeout_opt)
             = Resolved \<lparr> stdout = [], stderr = msg_failed_pre @ thrown, exitCode = 1,
                          success = False, error = Some (msg_failed_pre @ thrown) \<rparr>)
        \<and> (spawnCommand spawn command args (requestOptions ex wd env_opt timeout_opt)
              = Resolved res \<longrightarrow>
           fst (executeCommand ex fs spawn command args cwd_opt env_opt timeout_opt)
             = Resolved res)
        \<and> (maxTimeout ex \<noteq> 0 \<and> list_all is_data pre
            \<and> spawn command args (requestOptions ex wd env_opt timeout_opt)
                = Emits (pre @ TimerFires # post) \<longrightarrow>
           fst (executeCommand ex fs spawn command args cwd_opt env_opt timeout_opt)
             = Resolved \<lparr> stdout = stdout_of pre,
                 stderr = msg_timeout_pre @ number_text (effectiveTimeout ex timeout_opt)
                            @ msg_timeout_post,
                 exitCode = 1, success = False, error = Some msg_timeout_error \<rparr>)
        \<and> (list_all is_data pre
            \<and> spawn command args (requestOptions ex wd env_opt timeout_opt)
                = Emits (pre @ OnError message # post) \<longrightarrow>
           fst (executeCommand ex fs spawn command args cwd_opt env_opt timeout_opt)
             = Resolved \<lparr> stdout = stdout_of pre, stderr = message, exitCode = 1,
                          success = False, error = Some message \<rparr>)
        \<and> (list_all is_data pre
            \<and> spawn command args (requestOptions ex wd env_opt timeout_opt)
                = Emits (pre @ OnClose code # post) \<longrightarrow>
           fst (executeCommand ex fs spawn command args cwd_opt env_opt timeout_opt)
             = Resolved \<lparr> stdout = stdout_of pre, stderr = stderr_of pre,
                          exitCode = (case code of None \<Rightarrow> 1 | Some n \<Rightarrow> n),
                          success = (code = Some 0), error = None \<rparr>))"
    (is "?never \<and> ?returns \<and> ?empty \<and> ?refused \<and> ?outside \<and> ?spawned")
proof -
  have never: ?never
    by (simp add: executeCommand_def split: prod.splits promise.splits)
  have returns: ?returns
  proof
    assume a: "maxTimeout ex \<noteq> 0 \<and> (\<forall>c a opts. comes_to_an_end (spawn c a opts))"
    have sp: "spawnCommand spawn c a opts \<noteq> Pending" if "timeout opts \<noteq> 0" for c a opts
    proof (cases "spawn c a opts")
      case (SpawnThrows e)
      then show ?thesis by (simp add: spawnCommand_def)
    next
      case (Emits evs)
      with a have "list_ex is_terminal evs"
        by (metis comes_to_an_end.simps(2))
      with that have "settled (runEvents opts evs) \<noteq> None" by (rule runEvents_settles)
      with Emits show ?thesis by (auto simp: spawnCommand_def)
    qed
    have "fst (executeBody ex fs spawn command args cwd_opt env_opt timeout_opt) \<noteq> Pending"
      using a sp effectiveTimeout_nonzero [of ex timeout_opt]
      by (simp add: executeBody_def Let_def split: sum.splits)
    then show "\<exists>r. fst (executeCommand ex fs spawn command args cwd_opt env_opt timeout_opt)
                      = Resolved r"
      by (cases "fst (executeBody ex fs spawn command args cwd_opt env_opt timeout_opt)")
         (auto simp: executeCommand_def split: prod.splits promise.splits)
  qed
  have empty: ?empty
    by (simp add: executeCommand_def executeBody_def)
  have refused: ?refused
    by (simp add: executeCommand_def executeBody_def)
  have outside: ?outside
    by (simp add: executeCommand_def executeBody_def)
  have spawned: ?spawned
  proof (intro impI)
    assume v: "command \<noteq> [] \<and> isCommandAllowed ex command
        \<and> validateWorkingDirectory ex fs cwd_opt = Inr wd"
    let ?opts = "requestOptions ex wd env_opt timeout_opt"
    let ?res = "fst (executeCommand ex fs spawn command args cwd_opt env_opt timeout_opt)"
    have res: "?res = (case spawnCommand spawn command args ?opts of
                Rejected thrown \<Rightarrow> Resolved (createErrorResponse (msg_failed_pre @ thrown))
              | Resolved r \<Rightarrow> Resolved r
              | Pending \<Rightarrow> Pending)"
      using v by (simp add: executeCommand_result)
    have c1: "spawn command args ?opts = SpawnThrows thrown \<longrightarrow>
           ?res = Resolved \<lparr> stdout = [], stderr = msg_failed_pre @ thrown, exitCode = 1,
                          success = False, error = Some (msg_failed_pre @ thrown) \<rparr>"
      by (simp add: res spawnCommand_def createErrorResponse_def)
    have c2: "spawnCommand spawn command args ?opts = Resolved res \<longrightarrow> ?res = Resolved res"
      by (simp add: res)
    have c3: "maxTimeout ex \<noteq> 0 \<and> list_all is_data pre
            \<and> spawn command args ?opts = Emits (pre @ TimerFires # post) \<longrightarrow>
           ?res = Resolved \<lparr> stdout = stdout_of pre,
                 stderr = msg_timeout_pre @ number_text (effectiveTimeout ex timeout_opt)
                            @ msg_timeout_post,
                 exitCode = 1, success = False, error = Some msg_timeout_error \<rparr>"
      using effectiveTimeout_nonzero [of ex timeout_opt]
      by (simp add: res spawnCommand_def runEvents_timer_first requestOptions_timeout)
    have c4: "list_all is_data pre
            \<and> spawn command args ?opts = Emits (pre @ OnError message # post) \<longrightarrow>
           ?res = Resolved \<lparr> stdout = stdout_of pre, stderr = message, exitCode = 1,
                          success = False, error = Some message \<rparr>"
      by (simp add: res spawnCommand_def runEvents_error_after_data)
    have c5: "list_all is_data pre
            \<and> spawn command args ?opts = Emits (pre @ OnClose code # post) \<longrightarrow>
           ?res = Resolved \<lparr> stdout = stdout_of pre, stderr = stderr_of pre,
                          exitCode = (case code of None \<Rightarrow> 1 | Some n \<Rightarrow> n),
                          success = (code = Some 0), error = None \<rparr>"
      by (simp add: res spawnCommand_def runEvents_close_first)
    from c1 c2 c3 c4 c5
    show "(spawn command args ?opts = SpawnThrows thrown \<longrightarrow>
           ?res = Resolved \<lparr> stdout = [], stderr = msg_failed_pre @ thrown, exitCode = 1,
                          success = False, error = Some (msg_failed_pre @ thrown) \<rparr>)
        \<and> (spawnCommand spawn command args ?opts = Resolved res \<longrightarrow> ?res = Resolved res)
        \<and> (maxTimeout ex \<noteq> 0 \<and> list_all is_data pre
            \<and> spawn command args ?opts = Emits (pre @ TimerFires # post) \<longrightarrow>
           ?res = Resolved \<lparr> stdout = stdout_of pre,
                 stderr = msg_timeout_pre @ number_text (effectiveTimeout ex timeout_opt)
                            @ msg_timeout_post,
                 exitCode = 1, success = False, error = Some msg_timeout_error \<rparr>)
        \<and> (list_all is_data pre
            \<and> spawn command args ?opts = Emits (pre @ OnError message # post) \<longrightarrow>
           ?res = Resolved \<lparr> stdout = stdout_of pre, stderr = message, exitCode = 1,
                          success = False, error = Some message \<rparr>)
        \<and> (list_all is_data pre
            \<and> spawn command args ?opts = Emits (pre @ OnClose code # post) \<longrightarrow>
           ?res = Resolved \<lparr> stdout = stdout_of pre, stderr = stderr_of pre,
                          exitCode = (case code of None \<Rightarrow> 1 | Some n \<Rightarrow> n),
                          success = (code = Some 0), error = None \<rparr>)"
      by (intro conjI)
  qed
  from never returns empty refused outside spawned show ?thesis by (intro conjI)
qed

theorem executeCommand_never_rejects_witness:
  "maxTimeout app_executor \<noteq> 0
   \<and> (\<forall>c a opts. comes_to_an_end (echo_spawner c a opts))
   \<and> fst (executeCommand app_executor app_fs echo_spawner ''echo'' [''hello''] None None None)
       \<noteq> Rejected ''spawn E2BIG''
   \<and> fst (executeCommand app_executor app_fs echo_spawner ''echo'' [''hello''] None None None)
       = Resolved \<lparr> stdout = ''hello'', stderr = [], exitCode = 0, success = True,
                    error = None \<rparr>
   \<and> fst (executeCommand app_executor app_fs echo_spawner [] [] None None None)
       = Resolved (createErrorResponse msg_no_command)
   \<and> \<not> isCommandAllowed app_executor ''curl''
   \<and> fst (executeCommand app_executor app_fs echo_spawner ''curl'' [] None None None)
       = Resolved (createErrorResponse
           (msg_not_allowed_pre @ ''curl'' @ msg_not_allowed_mid
              @ join '', '' (allowedCommands app_executor)))
   \<and> isCommandAllowed app_executor ''echo''
   \<and> validateWorkingDirectory app_executor app_fs (Some ''../etc'')
       = Inl (msg_outside_pre @ ''../etc'' @ msg_outside_post)
   \<and> fst (executeCommand app_executor app_fs echo_spawner ''echo'' [] (Some ''../etc'') None None)
       = Resolved (createErrorResponse (msg_outside_pre @ ''../etc'' @ msg_outside_post))
   \<and> validateWorkingDirectory app_executor app_fs None = Inr ''/srv/app''
   \<and> fst (executeCommand app_executor app_fs throwing_spawner ''echo'' [] None None None)
       = Resolved \<lparr> stdout = [], stderr = msg_failed_pre @ ''spawn E2BIG'', exitCode = 1,
                    success = False, error = Some (msg_failed_pre @ ''spawn E2BIG'') \<rparr>
   \<and> fst (executeCommand app_executor app_fs hanging_spawner ''echo'' [] None None (Some 1000))
       = Resolved \<lparr> stdout = ''partial'',
                    stderr = msg_timeout_pre @ ''1000'' @ msg_timeout_post,
                    exitCode = 1, success = False, error = Some msg_timeout_error \<rparr>
   \<and> fst (executeCommand app_executor app_fs failing_spawner ''echo'' [] None None None)
       = Resolved \<lparr> stdout = [], stderr = ''spawn /bin/sh ENOENT'', exitCode = 1,
                    success = False, error = Some ''spawn /bin/sh ENOENT'' \<rparr>
   \<and> fst (executeCommand app_executor app_fs exiting_spawner ''echo'' [] None None None)
       = Resolved \<lparr> stdout = ''out'', stderr = ''err'', exitCode = 2, success = False,
                    error = None \<rparr>"
proof -
  have m: "maxTimeout app_executor \<noteq> 0" by (simp add: app_executor_simps)
  have e: "\<forall>c a opts. comes_to_an_end (echo_spawner c a opts)"
    by (simp add: echo_spawner_def)
  have w1: "fst (executeCommand app_executor app_fs echo_spawner ''echo'' [''hello''] None None None)
       \<noteq> Rejected ''spawn E2BIG''"
    using executeCommand_never_rejects
            [where ex = app_executor and fs = app_fs and spawn = echo_spawner
               and command = "''echo''" and args = "[''hello'']" and cwd_opt = None
               and env_opt = None and timeout_opt = None and m = "''spawn E2BIG''"]
    by simp
  have w2: "fst (executeCommand app_executor app_fs echo_spawner ''echo'' [''hello''] None None None)
       = Resolved \<lparr> stdout = ''hello'', stderr = [], exitCode = 0, success = True,
                    error = None \<rparr>"
    using executeCommand_never_rejects
            [where ex = app_executor and fs = app_fs and spawn = echo_spawner
               and command = "''echo''" and args = "[''hello'']" and cwd_opt = None
               and env_opt = None and timeout_opt = None and wd = "''/srv/app''"
               and res = "\<lparr> stdout = ''hello'', stderr = [], exitCode = 0, success = True,
                    error = None \<rparr>"]
          echo_allowed app_validate_none spawnCommand_echo
    by simp
  have w3: "fst (executeCommand app_executor app_fs echo_spawner [] [] None None None)
       = Resolved (createErrorResponse msg_no_command)"
    using executeCommand_never_rejects
            [where ex = app_executor and fs = app_fs and spawn = echo_spawner
               and command = "[]" and args = "[]" and cwd_opt = None
               and env_opt = None and timeout_opt = None]
    by simp
  have w4: "fst (executeCommand app_executor app_fs echo_spawner ''curl'' [] None None None)
       = Resolved (createErrorResponse
           (msg_not_allowed_pre @ ''curl'' @ msg_not_allowed_mid
              @ join '', '' (allowedCommands app_executor)))"
    using executeCommand_never_rejects
            [where ex = app_executor and fs = app_fs and spawn = echo_spawner
               and command = "''curl''" and args = "[]" and cwd_opt = None
               and env_opt = None and timeout_opt = None]
          curl_not_allowed
    by simp
  have w5: "fst (executeCommand app_executor app_fs echo_spawner ''echo'' [] (Some ''../etc'') None None)
       = Resolved (createErrorResponse (msg_outside_pre @ ''../etc'' @ msg_outside_post))"
    using executeCommand_never_rejects
            [where ex = app_executor and fs = app_fs and spawn = echo_spawner
               and command = "''echo''" and args = "[]" and cwd_opt = "Some ''../etc''"
               and env_opt = None and timeout_opt = None
               and refusal = "msg_outside_pre @ ''../etc'' @ msg_outside_post"]
          echo_allowed app_validate_escape
    by simp
  have w6: "fst (executeCommand app_executor app_fs throwing_spawner ''echo'' [] None None None)
       = Resolved \<lparr> stdout = [], stderr = msg_failed_pre @ ''spawn E2BIG'', exitCode = 1,
                    success = False, error = Some (msg_failed_pre @ ''spawn E2BIG'') \<rparr>"
    using executeCommand_never_rejects
            [where ex = app_executor and fs = app_fs and spawn = throwing_spawner
               and command = "''echo''" and args = "[]" and cwd_opt = None
               and env_opt = None and timeout_opt = None and wd = "''/srv/app''"
               and thrown = "''spawn E2BIG''"]
          echo_allowed app_validate_none
    by (simp add: throwing_spawner_def)
  have w7: "fst (executeCommand app_executor app_fs hanging_spawner ''echo'' [] None None (Some 1000))
       = Resolved \<lparr> stdout = ''partial'',
                    stderr = msg_timeout_pre @ ''1000'' @ msg_timeout_post,
                    exitCode = 1, success = False, error = Some msg_timeout_error \<rparr>"
    using executeCommand_never_rejects
            [where ex = app_executor and fs = app_fs and spawn = hanging_spawner
               and command = "''echo''" and args = "[]" and cwd_opt = None
               and env_opt = None and timeout_opt = "Some 1000" and wd = "''/srv/app''"
               and pre = "[OnStdout ''par'', OnStderr ''warning'', OnStdout ''tial'']"
               and post = "[OnClose None]"]
          echo_allowed app_validate_none m
    by (simp add: hanging_spawner_def effectiveTimeout_app_1000 number_text_1000)
  have w8: "fst (executeCommand app_executor app_fs failing_spawner ''echo'' [] None None None)
       = Resolved \<lparr> stdout = [], stderr = ''spawn /bin/sh ENOENT'', exitCode = 1,
                    success = False, error = Some ''spawn /bin/sh ENOENT'' \<rparr>"
    using executeCommand_never_rejects
            [where ex = app_executor and fs = app_fs and spawn = failing_spawner
               and command = "''echo''" and args = "[]" and cwd_opt = None
               and env_opt = None and timeout_opt = None and wd = "''/srv/app''"
               and pre = "[]" and message = "''spawn /bin/sh ENOENT''"
               and post = "[OnClose (Some (- 2))]"]
          echo_allowed app_validate_none
    by (simp add: failing_spawner_def)
  have w9: "fst (executeCommand app_executor app_fs exiting_spawner ''echo'' [] None None None)
       = Resolved \<lparr> stdout = ''out'', stderr = ''err'', exitCode = 2, success = False,
                    error = None \<rparr>"
    using executeCommand_never_rejects
            [where ex = app_executor and fs = app_fs and spawn = exiting_spawner
               and command = "''echo''" and args = "[]" and cwd_opt = None
               and env_opt = None and timeout_opt = None and wd = "''/srv/app''"
               and pre = "[OnStdout ''out'', OnStderr ''err'']" and code = "Some 2"
               and post = "[]"]
          echo_allowed app_validate_none
    by (simp add: exiting_spawner_def)
  from m e w1 w2 w3 w4 w5 w6 w7 w8 w9 curl_not_allowed echo_allowed app_validate_escape
    app_validate_none
  show ?thesis by (intro conjI)
qed

text \<open>
  Claim C5. The checks run in the order: command given, command allowed, working
  directory valid. The first one that fails decides the response, whatever the later ones
  would say; the response has \<open>success = false\<close> and carries the message in its \<open>error\<close>
  field, and \<open>spawn\<close> is not called. The message for a command that is not allowed
  contains the command as given.
\<close>

theorem executeCommand_validation_order:
  "(command = [] \<longrightarrow>
      executeCommand ex fs spawn command args cwd_opt env_opt timeout_opt
        = (Resolved (createErrorResponse msg_no_command), []))
   \<and> (command \<noteq> [] \<and> \<not> isCommandAllowed ex command \<longrightarrow>
        executeCommand ex fs spawn command args cwd_opt env_opt timeout_opt
          = (Resolved (createErrorResponse
               (msg_not_allowed_pre @ command @ msg_not_allowed_mid
                  @ join '', '' (allowedCommands ex))), [])
        \<and> sublist command
            (msg_not_allowed_pre @ command @ msg_not_allowed_mid
               @ join '', '' (allowedCommands ex)))
   \<and> (command \<noteq> [] \<and> isCommandAllowed ex command
        \<and> validateWorkingDirectory ex fs cwd_opt = Inl e \<longrightarrow>
        executeCommand ex fs spawn command args cwd_opt env_opt timeout_opt
          = (Resolved (createErrorResponse e), []))
   \<and> \<not> success (createErrorResponse message)
   \<and> error (createErrorResponse message) = Some message"
proof -
  have "sublist command (msg_not_allowed_pre @ command @ rest)" for rest
    by (simp add: sublist_def) blast
  then show ?thesis
    by (simp add: executeCommand_def executeBody_def createErrorResponse_def)
qed

theorem executeCommand_validation_order_witness:
  "executeCommand app_executor app_fs echo_spawner [] [] (Some ''../etc'') None None
     = (Resolved (createErrorResponse msg_no_command), [])
   \<and> ''curl'' \<noteq> [] \<and> \<not> isCommandAllowed app_executor ''curl''
   \<and> executeCommand app_executor app_fs echo_spawner ''curl'' [] (Some ''../etc'') None None
       = (Resolved (createErrorResponse
            (msg_not_allowed_pre @ ''curl'' @ msg_not_allowed_mid
               @ join '', '' (allowedCommands app_executor))), [])
   \<and> ''echo'' \<noteq> [] \<and> isCommandAllowed app_executor ''echo''
   \<and> validateWorkingDirectory app_executor app_fs (Some ''../etc'')
       = Inl (msg_outside_pre @ ''../etc'' @ msg_outside_post)
   \<and> executeCommand app_executor app_fs echo_spawner ''echo'' [] (Some ''../etc'') None None
       = (Resolved (createErrorResponse (msg_outside_pre @ ''../etc'' @ msg_outside_post)), [])"
  using executeCommand_validation_order
          [of "[]" app_executor app_fs echo_spawner "[]" "Some ''../etc''" None None]
        executeCommand_validation_order
          [of "''curl''" app_executor app_fs echo_spawner "[]" "Some ''../etc''" None None]
        executeCommand_validation_order
          [of "''echo''" app_executor app_fs echo_spawner "[]" "Some ''../etc''" None None
              "msg_outside_pre @ ''../etc'' @ msg_outside_post"]
        echo_allowed curl_not_allowed app_validate_escape
  by simp

text \<open>
  Claim C6, as far as the code goes. The timeout handed to \<open>spawnCommand\<close> is the
  maximum when the request has no timeout or the timeout 0, and otherwise the smaller of
  the requested timeout and the maximum; the constructor sets the maximum to 60000.
\<close>

theorem executeCommand_timeout_passed:
  assumes "command \<noteq> []" and "isCommandAllowed ex command"
    and "validateWorkingDirectory ex fs cwd_opt = Inr wd"
  shows "map (\<lambda>(c, a, opts). timeout opts)
           (snd (executeCommand ex fs spawn command args cwd_opt env_opt timeout_opt))
         = [case timeout_opt of
              None \<Rightarrow> maxTimeout ex
            | Some t \<Rightarrow> if t = 0 then maxTimeout ex else min t (maxTimeout ex)]
         \<and> maxTimeout (newShellExecutor baseDir shellEnv) = 60000"
  using assms
  by (simp add: executeCommand_spawns effectiveTimeout_def newShellExecutor_def
      split: option.splits)

theorem executeCommand_timeout_passed_witness:
  "''echo'' \<noteq> [] \<and> isCommandAllowed app_executor ''echo''
   \<and> validateWorkingDirectory app_executor app_fs (Some ''src'') = Inr ''/srv/app/src''
   \<and> map (\<lambda>(c, a, opts). timeout opts)
        (snd (executeCommand app_executor app_fs echo_spawner ''echo'' [] (Some ''src'') None
                (Some 5000))) = [5000]
   \<and> map (\<lambda>(c, a, opts). timeout opts)
        (snd (executeCommand app_executor app_fs echo_spawner ''echo'' [] (Some ''src'') None
                (Some 90000))) = [60000]
   \<and> map (\<lambda>(c, a, opts). timeout opts)
        (snd (executeCommand app_executor app_fs echo_spawner ''echo'' [] (Some ''src'') None
                None)) = [60000]"
  using executeCommand_timeout_passed
          [of "''echo''" app_executor app_fs "Some ''src''" "''/srv/app/src''" echo_spawner "[]"
              None "Some 5000"]
        executeCommand_timeout_passed
          [of "''echo''" app_executor app_fs "Some ''src''" "''/srv/app/src''" echo_spawner "[]"
              None "Some 90000"]
        executeCommand_timeout_passed
          [of "''echo''" app_executor app_fs "Some ''src''" "''/srv/app/src''" echo_spawner "[]"
              None None]
        echo_allowed app_validate_src
  by (simp add: app_executor_simps)

text \<open>
  Claim C6 as stated has a requested timeout of 0 used as given, which would make the
  effective timeout \<open>min 0 60000 = 0\<close>. The code reads \<open>timeout || maxTimeout\<close>, and the
  call is made with 60000.
\<close>

theorem executeCommand_timeout_zero_defaults:
  "map (\<lambda>(c, a, opts). timeout opts)
     (snd (executeCommand app_executor app_fs echo_spawner ''echo'' [] None None (Some 0)))
     = [60000]
   \<and> map (\<lambda>(c, a, opts). timeout opts)
       (snd (executeCommand app_executor app_fs echo_spawner ''echo'' [] None None (Some 0)))
     \<noteq> [min 0 (maxTimeout app_executor)]"
proof -
  have "validateWorkingDirectory app_executor app_fs None = Inr ''/srv/app''"
    by (simp add: validateWorkingDirectory_def app_executor_simps)
  then show ?thesis
    using echo_allowed
    by (simp add: executeCommand_spawns effectiveTimeout_def app_executor_simps)
qed

text \<open>
  Claim C8. In the environment handed to the spawned process, a key the request defines
  has the request's value, also when the shell environment defines it too; a key the
  request does not define has the value of the shell environment, if any.
\<close>

theorem executeCommand_merged_env:
  assumes "command \<noteq> []" and "isCommandAllowed ex command"
    and "validateWorkingDirectory ex fs cwd_opt = Inr wd"
  shows "map (\<lambda>(c, a, opts). env opts k)
           (snd (executeCommand ex fs spawn command args cwd_opt env_opt timeout_opt))
         = [case env_opt of
              None \<Rightarrow> shellEnvironment ex k
            | Some req \<Rightarrow> (case req k of Some v \<Rightarrow> Some v | None \<Rightarrow> shellEnvironment ex k)]"
  using assms
  by (simp add: executeCommand_spawns mergedEnv_def map_add_def split: option.splits)

theorem executeCommand_merged_env_witness:
  "''echo'' \<noteq> [] \<and> isCommandAllowed app_executor ''echo''
   \<and> validateWorkingDirectory app_executor app_fs (Some ''src'') = Inr ''/srv/app/src''
   \<and> map (\<lambda>(c, a, opts). env opts ''PATH'')
        (snd (executeCommand app_executor app_fs echo_spawner ''echo'' [] (Some ''src'')
                (Some [''PATH'' \<mapsto> ''/opt/bin'', ''FOO'' \<mapsto> ''1'']) None))
       = [Some ''/opt/bin'']
   \<and> map (\<lambda>(c, a, opts). env opts ''HOME'')
        (snd (executeCommand app_executor app_fs echo_spawner ''echo'' [] (Some ''src'')
                (Some [''PATH'' \<mapsto> ''/opt/bin'', ''FOO'' \<mapsto> ''1'']) None))
       = [Some ''/root'']
   \<and> map (\<lambda>(c, a, opts). env opts ''FOO'')
        (snd (executeCommand app_executor app_fs echo_spawner ''echo'' [] (Some ''src'')
                (Some [''PATH'' \<mapsto> ''/opt/bin'', ''FOO'' \<mapsto> ''1'']) None))
       = [Some ''1'']"
  using executeCommand_merged_env
          [of "''echo''" app_executor app_fs "Some ''src''" "''/srv/app/src''" "''PATH''"
              echo_spawner "[]" "Some [''PATH'' \<mapsto> ''/opt/bin'', ''FOO'' \<mapsto> ''1'']" None]
        executeCommand_merged_env
          [of "''echo''" app_executor app_fs "Some ''src''" "''/srv/app/src''" "''HOME''"
              echo_spawner "[]" "Some [''PATH'' \<mapsto> ''/opt/bin'', ''FOO'' \<mapsto> ''1'']" None]
        executeCommand_merged_env
          [of "''echo''" app_executor app_fs "Some ''src''" "''/srv/app/src''" "''FOO''"
              echo_spawner "[]" "Some [''PATH'' \<mapsto> ''/opt/bin'', ''FOO'' \<mapsto> ''1'']" None]
        echo_allowed app_validate_src
  by (simp add: app_executor_simps)

text \<open>
  Claim C7, as far as the code goes. The command is run by a shell, so a binary that is
  not found or may not be executed is reported by the shell: the process closes, and the
  result has the shell's exit status (127, 126), \<open>success = false\<close>, no \<open>error\<close> field, an
  empty \<open>stdout\<close> and the shell's report in \<open>stderr\<close>. When the process fails to start at
  all, so that the \<open>error\<close> event comes first, the result has exit code 1,
  \<open>success = false\<close>, the error's message in the \<open>error\<close> field and in \<open>stderr\<close>, and an
  empty \<open>stdout\<close>. When \<open>spawn\<close> itself throws, the promise of \<open>spawnCommand\<close> is
  rejected and \<open>executeCommand\<close> returns the error response with exit code 1 and the
  prefixed message.
\<close>

theorem spawnCommand_start_failure:
  "(spawn command args options = Emits (missing_binary_events complaint) \<longrightarrow>
      spawnCommand spawn command args options
        = Resolved \<lparr> stdout = [], stderr = complaint, exitCode = 127, success = False,
                     error = None \<rparr>)
   \<and> (spawn command args options = Emits (not_executable_events complaint) \<longrightarrow>
      spawnCommand spawn command args options
        = Resolved \<lparr> stdout = [], stderr = complaint, exitCode = 126, success = False,
                     error = None \<rparr>)
   \<and> (spawn command args options = Emits (OnError message # post) \<longrightarrow>
      spawnCommand spawn command args options
        = Resolved \<lparr> stdout = [], stderr = message, exitCode = 1, success = False,
                     error = Some message \<rparr>)
   \<and> (spawn command args options = SpawnThrows thrown \<longrightarrow>
      spawnCommand spawn command args options = Rejected thrown)
   \<and> (command \<noteq> [] \<and> isCommandAllowed ex command
       \<and> validateWorkingDirectory ex fs cwd_opt = Inr wd
       \<and> spawn command args (requestOptions ex wd env_opt timeout_opt) = SpawnThrows thrown \<longrightarrow>
      fst (executeCommand ex fs spawn command args cwd_opt env_opt timeout_opt)
        = Resolved \<lparr> stdout = [], stderr = msg_failed_pre @ thrown, exitCode = 1,
                     success = False, error = Some (msg_failed_pre @ thrown) \<rparr>)"
    (is "?absent \<and> ?denied \<and> ?failed \<and> ?rejected \<and> ?caught")
proof -
  have absent: ?absent
    by (simp add: spawnCommand_def missing_binary_events_def runEvents_def initialRun_def
        settle_def)
  have denied: ?denied
    by (simp add: spawnCommand_def not_executable_events_def runEvents_def initialRun_def
        settle_def)
  have failed: ?failed
    by (simp add: spawnCommand_def runEvents_error_first)
  have rejected: ?rejected
    by (simp add: spawnCommand_def)
  have caught: ?caught
    by (simp add: executeCommand_result spawnCommand_def createErrorResponse_def)
  from absent denied failed rejected caught show ?thesis by (intro conjI)
qed

theorem spawnCommand_start_failure_witness:
  "absent_spawner ''cargo'' [''build''] app_options
     = Emits (missing_binary_events ''/bin/sh: 1: cargo: not found'')
   \<and> spawnCommand absent_spawner ''cargo'' [''build''] app_options
       = Resolved \<lparr> stdout = [], stderr = ''/bin/sh: 1: cargo: not found'', exitCode = 127,
                    success = False, error = None \<rparr>
   \<and> denied_spawner ''cargo'' [''build''] app_options
     = Emits (not_executable_events ''/bin/sh: 1: cargo: Permission denied'')
   \<and> spawnCommand denied_spawner ''cargo'' [''build''] app_options
       = Resolved \<lparr> stdout = [], stderr = ''/bin/sh: 1: cargo: Permission denied'',
                    exitCode = 126, success = False, error = None \<rparr>
   \<and> failing_spawner ''cargo'' [''build''] app_options
     = Emits (OnError ''spawn /bin/sh ENOENT'' # [OnClose (Some (- 2))])
   \<and> spawnCommand failing_spawner ''cargo'' [''build''] app_options
       = Resolved \<lparr> stdout = [], stderr = ''spawn /bin/sh ENOENT'', exitCode = 1,
                    success = False, error = Some ''spawn /bin/sh ENOENT'' \<rparr>
   \<and> throwing_spawner ''cargo'' [''build''] app_options = SpawnThrows ''spawn E2BIG''
   \<and> spawnCommand throwing_spawner ''cargo'' [''build''] app_options = Rejected ''spawn E2BIG''
   \<and> ''cargo'' \<noteq> [] \<and> isCommandAllowed app_executor ''cargo''
   \<and> validateWorkingDirectory app_executor app_fs None = Inr ''/srv/app''
   \<and> fst (executeCommand app_executor app_fs throwing_spawner ''cargo'' [''build''] None None None)
       = Resolved \<lparr> stdout = [], stderr = msg_failed_pre @ ''spawn E2BIG'', exitCode = 1,
                    success = False, error = Some (msg_failed_pre @ ''spawn E2BIG'') \<rparr>"
proof -
  have h1: "absent_spawner ''cargo'' [''build''] app_options
     = Emits (missing_binary_events ''/bin/sh: 1: cargo: not found'')"
    by (simp add: absent_spawner_def)
  have h2: "denied_spawner ''cargo'' [''build''] app_options
     = Emits (not_executable_events ''/bin/sh: 1: cargo: Permission denied'')"
    by (simp add: denied_spawner_def)
  have h3: "failing_spawner ''cargo'' [''build''] app_options
     = Emits (OnError ''spawn /bin/sh ENOENT'' # [OnClose (Some (- 2))])"
    by (simp add: failing_spawner_def)
  have h4: "throwing_spawner c a opts = SpawnThrows ''spawn E2BIG''" for c a opts
    by (simp add: throwing_spawner_def)
  have w1: "spawnCommand absent_spawner ''cargo'' [''build''] app_options
       = Resolved \<lparr> stdout = [], stderr = ''/bin/sh: 1: cargo: not found'', exitCode = 127,
                    success = False, error = None \<rparr>"
    using spawnCommand_start_failure
            [where spawn = absent_spawner and command = "''cargo''" and args = "[''build'']"
               and options = app_options and complaint = "''/bin/sh: 1: cargo: not found''"]
          h1
    by simp
  have w2: "spawnCommand denied_spawner ''cargo'' [''build''] app_options
       = Resolved \<lparr> stdout = [], stderr = ''/bin/sh: 1: cargo: Permission denied'',
                    exitCode = 126, success = False, error = None \<rparr>"
    using spawnCommand_start_failure
            [where spawn = denied_spawner and command = "''cargo''" and args = "[''build'']"
               and options = app_options
               and complaint = "''/bin/sh: 1: cargo: Permission denied''"]
          h2
    by simp
  have w3: "spawnCommand failing_spawner ''cargo'' [''build''] app_options
       = Resolved \<lparr> stdout = [], stderr = ''spawn /bin/sh ENOENT'', exitCode = 1,
                    success = False, error = Some ''spawn /bin/sh ENOENT'' \<rparr>"
    using spawnCommand_start_failure
            [where spawn = failing_spawner and command = "''cargo''" and args = "[''build'']"
               and options = app_options and message = "''spawn /bin/sh ENOENT''"
               and post = "[OnClose (Some (- 2))]"]
          h3
    by simp
  have w4: "spawnCommand throwing_spawner ''cargo'' [''build''] app_options
              = Rejected ''spawn E2BIG''"
    using spawnCommand_start_failure
            [where spawn = throwing_spawner and command = "''cargo''" and args = "[''build'']"
               and options = app_options and thrown = "''spawn E2BIG''"]
          h4
    by simp
  have w5: "fst (executeCommand app_executor app_fs throwing_spawner ''cargo'' [''build'']
                   None None None)
       = Resolved \<lparr> stdout = [], stderr = msg_failed_pre @ ''spawn E2BIG'', exitCode = 1,
                    success = False, error = Some (msg_failed_pre @ ''spawn E2BIG'') \<rparr>"
    using spawnCommand_start_failure
            [where spawn = throwing_spawner and command = "''cargo''" and args = "[''build'']"
               and ex = app_executor and fs = app_fs and cwd_opt = None and env_opt = None
               and timeout_opt = None and wd = "''/srv/app''" and thrown = "''spawn E2BIG''"]
          h4 cargo_allowed app_validate_none
    by simp
  have n: "''cargo'' \<noteq> []" by simp
  from h1 w1 h2 w2 h3 w3 h4 [of "''cargo''" "[''build'']" app_options] w4 n cargo_allowed
    app_validate_none w5
  show ?thesis by (intro conjI)
qed

text \<open>
  Claim C7 as stated has exit code 1, the operating system's error text in the \<open>error\<close>
  field and empty output for a binary that is not found. For \<open>cargo\<close>, allowed but not
  installed, the shell's exit status 127 is the exit code, there is no \<open>error\<close> field and
  \<open>stderr\<close> holds the shell's report; and when the shell itself cannot be started, \<open>stderr\<close>
  holds the error's message, so the output is not empty there either.
\<close>

theorem executeCommand_missing_binary_exit_127:
  "fst (executeCommand app_executor app_fs absent_spawner ''cargo'' [''build''] None None None)
     = Resolved \<lparr> stdout = [], stderr = ''/bin/sh: 1: cargo: not found'', exitCode = 127,
                  success = False, error = None \<rparr>
   \<and> map_option exitCode (resolved_value (fst
         (executeCommand app_executor app_fs absent_spawner ''cargo'' [''build''] None None None)))
       \<noteq> Some 1
   \<and> fst (executeCommand app_executor app_fs failing_spawner ''cargo'' [''build''] None None None)
     = Resolved \<lparr> stdout = [], stderr = ''spawn /bin/sh ENOENT'', exitCode = 1,
                  success = False, error = Some ''spawn /bin/sh ENOENT'' \<rparr>
   \<and> map_option stderr (resolved_value (fst
         (executeCommand app_executor app_fs failing_spawner ''cargo'' [''build''] None None None)))
       \<noteq> Some []"
proof -
  have a: "spawnCommand absent_spawner c a opts
       = Resolved \<lparr> stdout = [], stderr = ''/bin/sh: 1: cargo: not found'', exitCode = 127,
                    success = False, error = None \<rparr>" for c a opts
    by (simp add: spawnCommand_def absent_spawner_def missing_binary_events_def runEvents_def
        initialRun_def settle_def)
  have b: "spawnCommand failing_spawner c a opts
       = Resolved \<lparr> stdout = [], stderr = ''spawn /bin/sh ENOENT'', exitCode = 1,
                  success = False, error = Some ''spawn /bin/sh ENOENT'' \<rparr>" for c a opts
    by (simp add: spawnCommand_def failing_spawner_def runEvents_error_first)
  show ?thesis
    using cargo_allowed app_validate_none
    by (simp add: executeCommand_result a b)
qed

end
